theory Spec2Isabelle
  imports Main
begin

section \<open>Data types of the AST (ASTEnums)\<close>

text \<open>
  Modelled from the spec: the enumeration \<open>DataType\<close> is declared in ASTEnums.h, which
  is not among the sources. Its enumerators are the ones named in ASTEnums.cpp
  (\<open>VectorTypeDim\<close>, \<open>MatrixTypeDim\<close>, \<open>DataTypeToString\<close>), and their order is the
  layout of the spec (4.1): scalars occupy Bool..Double, vectors Bool2..Double4 in
  row-major (base x size), matrices Bool2x2..Double4x4 in (base x rows x cols), after
  the two enumerators \<open>Undefined\<close> and \<open>String\<close>. The enumerator \<open>Int\<close> is written
  \<open>Int'\<close>.
\<close>

datatype (plugins only: code) DataType =
    Undefined | String
  | Bool | Int' | UInt | Half | Float | Double
  | Bool2 | Bool3 | Bool4 | Int2 | Int3 | Int4 | UInt2 | UInt3 | UInt4
  | Half2 | Half3 | Half4 | Float2 | Float3 | Float4 | Double2 | Double3 | Double4
  | Bool2x2 | Bool2x3 | Bool2x4 | Bool3x2 | Bool3x3 | Bool3x4 | Bool4x2 | Bool4x3 | Bool4x4
  | Int2x2 | Int2x3 | Int2x4 | Int3x2 | Int3x3 | Int3x4 | Int4x2 | Int4x3 | Int4x4
  | UInt2x2 | UInt2x3 | UInt2x4 | UInt3x2 | UInt3x3 | UInt3x4 | UInt4x2 | UInt4x3 | UInt4x4
  | Half2x2 | Half2x3 | Half2x4 | Half3x2 | Half3x3 | Half3x4 | Half4x2 | Half4x3 | Half4x4
  | Float2x2 | Float2x3 | Float2x4 | Float3x2 | Float3x3 | Float3x4
  | Float4x2 | Float4x3 | Float4x4
  | Double2x2 | Double2x3 | Double2x4 | Double3x2 | Double3x3 | Double3x4
  | Double4x2 | Double4x3 | Double4x4

text \<open>The enumerators in declaration order; the position of one is its integer value.\<close>

definition DataType_enum :: "DataType list" where
  "DataType_enum =
    [Undefined, String,
     Bool, Int', UInt, Half, Float, Double,
     Bool2, Bool3, Bool4, Int2, Int3, Int4, UInt2, UInt3, UInt4,
     Half2, Half3, Half4, Float2, Float3, Float4, Double2, Double3, Double4,
     Bool2x2, Bool2x3, Bool2x4, Bool3x2, Bool3x3, Bool3x4, Bool4x2, Bool4x3, Bool4x4,
     Int2x2, Int2x3, Int2x4, Int3x2, Int3x3, Int3x4, Int4x2, Int4x3, Int4x4,
     UInt2x2, UInt2x3, UInt2x4, UInt3x2, UInt3x3, UInt3x4, UInt4x2, UInt4x3, UInt4x4,
     Half2x2, Half2x3, Half2x4, Half3x2, Half3x3, Half3x4, Half4x2, Half4x3, Half4x4,
     Float2x2, Float2x3, Float2x4, Float3x2, Float3x3, Float3x4,
     Float4x2, Float4x3, Float4x4,
     Double2x2, Double2x3, Double2x4, Double3x2, Double3x3, Double3x4,
     Double4x2, Double4x3, Double4x4]"

text \<open>\<open>Idx\<close> is \<open>static_cast<int>(t)\<close>.\<close>

fun Idx :: "DataType \<Rightarrow> int" where
  "Idx Undefined = 0" | "Idx String = 1"
| "Idx Bool = 2" | "Idx Int' = 3" | "Idx UInt = 4"
| "Idx Half = 5" | "Idx Float = 6" | "Idx Double = 7"
| "Idx Bool2 = 8" | "Idx Bool3 = 9" | "Idx Bool4 = 10"
| "Idx Int2 = 11" | "Idx Int3 = 12" | "Idx Int4 = 13"
| "Idx UInt2 = 14" | "Idx UInt3 = 15" | "Idx UInt4 = 16"
| "Idx Half2 = 17" | "Idx Half3 = 18" | "Idx Half4 = 19"
| "Idx Float2 = 20" | "Idx Float3 = 21" | "Idx Float4 = 22"
| "Idx Double2 = 23" | "Idx Double3 = 24" | "Idx Double4 = 25"
| "Idx Bool2x2 = 26" | "Idx Bool2x3 = 27" | "Idx Bool2x4 = 28"
| "Idx Bool3x2 = 29" | "Idx Bool3x3 = 30" | "Idx Bool3x4 = 31"
| "Idx Bool4x2 = 32" | "Idx Bool4x3 = 33" | "Idx Bool4x4 = 34"
| "Idx Int2x2 = 35" | "Idx Int2x3 = 36" | "Idx Int2x4 = 37"
| "Idx Int3x2 = 38" | "Idx Int3x3 = 39" | "Idx Int3x4 = 40"
| "Idx Int4x2 = 41" | "Idx Int4x3 = 42" | "Idx Int4x4 = 43"
| "Idx UInt2x2 = 44" | "Idx UInt2x3 = 45" | "Idx UInt2x4 = 46"
| "Idx UInt3x2 = 47" | "Idx UInt3x3 = 48" | "Idx UInt3x4 = 49"
| "Idx UInt4x2 = 50" | "Idx UInt4x3 = 51" | "Idx UInt4x4 = 52"
| "Idx Half2x2 = 53" | "Idx Half2x3 = 54" | "Idx Half2x4 = 55"
| "Idx Half3x2 = 56" | "Idx Half3x3 = 57" | "Idx Half3x4 = 58"
| "Idx Half4x2 = 59" | "Idx Half4x3 = 60" | "Idx Half4x4 = 61"
| "Idx Float2x2 = 62" | "Idx Float2x3 = 63" | "Idx Float2x4 = 64"
| "Idx Float3x2 = 65" | "Idx Float3x3 = 66" | "Idx Float3x4 = 67"
| "Idx Float4x2 = 68" | "Idx Float4x3 = 69" | "Idx Float4x4 = 70"
| "Idx Double2x2 = 71" | "Idx Double2x3 = 72" | "Idx Double2x4 = 73"
| "Idx Double3x2 = 74" | "Idx Double3x3 = 75" | "Idx Double3x4 = 76"
| "Idx Double4x2 = 77" | "Idx Double4x3 = 78" | "Idx Double4x4 = 79"

text \<open>
  \<open>static_cast<DataType>(idx)\<close>. The C++ cast of an integer that is no enumerator's
  value yields a value without a name; the datatype has none, and the model answers
  \<open>Undefined\<close> there. \<open>VectorDataType\<close> and \<open>MatrixDataType\<close> only cast indices of
  enumerators (lemmas \<open>VectorDataType_idx_in_range\<close>, \<open>MatrixDataType_idx_in_range\<close>).
\<close>

definition DataType_of_Idx :: "int \<Rightarrow> DataType" where
  "DataType_of_Idx i =
     (if 0 \<le> i \<and> i < int (length DataType_enum) then DataType_enum ! nat i
      else Undefined)"

definition IsScalarType :: "DataType \<Rightarrow> bool" where
  "IsScalarType t \<longleftrightarrow> Idx t \<ge> Idx Bool \<and> Idx t \<le> Idx Double"

definition IsVectorType :: "DataType \<Rightarrow> bool" where
  "IsVectorType t \<longleftrightarrow> Idx t \<ge> Idx Bool2 \<and> Idx t \<le> Idx Double4"

definition IsMatrixType :: "DataType \<Rightarrow> bool" where
  "IsMatrixType t \<longleftrightarrow> Idx t \<ge> Idx Bool2x2 \<and> Idx t \<le> Idx Double4x4"

fun VectorTypeDim :: "DataType \<Rightarrow> int" where
  "VectorTypeDim Bool = 1" | "VectorTypeDim Int' = 1" | "VectorTypeDim UInt = 1"
| "VectorTypeDim Half = 1" | "VectorTypeDim Float = 1" | "VectorTypeDim Double = 1"
| "VectorTypeDim Bool2 = 2" | "VectorTypeDim Int2 = 2" | "VectorTypeDim UInt2 = 2"
| "VectorTypeDim Half2 = 2" | "VectorTypeDim Float2 = 2" | "VectorTypeDim Double2 = 2"
| "VectorTypeDim Bool3 = 3" | "VectorTypeDim Int3 = 3" | "VectorTypeDim UInt3 = 3"
| "VectorTypeDim Half3 = 3" | "VectorTypeDim Float3 = 3" | "VectorTypeDim Double3 = 3"
| "VectorTypeDim Bool4 = 4" | "VectorTypeDim Int4 = 4" | "VectorTypeDim UInt4 = 4"
| "VectorTypeDim Half4 = 4" | "VectorTypeDim Float4 = 4" | "VectorTypeDim Double4 = 4"
| "VectorTypeDim _ = 0"

fun MatrixTypeDim :: "DataType \<Rightarrow> int \<times> int" where
  "MatrixTypeDim Bool = (1, 1)" | "MatrixTypeDim Int' = (1, 1)"
| "MatrixTypeDim UInt = (1, 1)" | "MatrixTypeDim Half = (1, 1)"
| "MatrixTypeDim Float = (1, 1)" | "MatrixTypeDim Double = (1, 1)"
| "MatrixTypeDim Bool2 = (2, 1)" | "MatrixTypeDim Int2 = (2, 1)"
| "MatrixTypeDim UInt2 = (2, 1)" | "MatrixTypeDim Half2 = (2, 1)"
| "MatrixTypeDim Float2 = (2, 1)" | "MatrixTypeDim Double2 = (2, 1)"
| "MatrixTypeDim Bool3 = (3, 1)" | "MatrixTypeDim Int3 = (3, 1)"
| "MatrixTypeDim UInt3 = (3, 1)" | "MatrixTypeDim Half3 = (3, 1)"
| "MatrixTypeDim Float3 = (3, 1)" | "MatrixTypeDim Double3 = (3, 1)"
| "MatrixTypeDim Bool4 = (4, 1)" | "MatrixTypeDim Int4 = (4, 1)"
| "MatrixTypeDim UInt4 = (4, 1)" | "MatrixTypeDim Half4 = (4, 1)"
| "MatrixTypeDim Float4 = (4, 1)" | "MatrixTypeDim Double4 = (4, 1)"
| "MatrixTypeDim Bool2x2 = (2, 2)" | "MatrixTypeDim Int2x2 = (2, 2)"
| "MatrixTypeDim UInt2x2 = (2, 2)" | "MatrixTypeDim Half2x2 = (2, 2)"
| "MatrixTypeDim Float2x2 = (2, 2)" | "MatrixTypeDim Double2x2 = (2, 2)"
| "MatrixTypeDim Bool2x3 = (2, 3)" | "MatrixTypeDim Int2x3 = (2, 3)"
| "MatrixTypeDim UInt2x3 = (2, 3)" | "MatrixTypeDim Half2x3 = (2, 3)"
| "MatrixTypeDim Float2x3 = (2, 3)" | "MatrixTypeDim Double2x3 = (2, 3)"
| "MatrixTypeDim Bool2x4 = (2, 4)" | "MatrixTypeDim Int2x4 = (2, 4)"
| "MatrixTypeDim UInt2x4 = (2, 4)" | "MatrixTypeDim Half2x4 = (2, 4)"
| "MatrixTypeDim Float2x4 = (2, 4)" | "MatrixTypeDim Double2x4 = (2, 4)"
| "MatrixTypeDim Bool3x2 = (3, 2)" | "MatrixTypeDim Int3x2 = (3, 2)"
| "MatrixTypeDim UInt3x2 = (3, 2)" | "MatrixTypeDim Half3x2 = (3, 2)"
| "MatrixTypeDim Float3x2 = (3, 2)" | "MatrixTypeDim Double3x2 = (3, 2)"
| "MatrixTypeDim Bool3x3 = (3, 3)" | "MatrixTypeDim Int3x3 = (3, 3)"
| "MatrixTypeDim UInt3x3 = (3, 3)" | "MatrixTypeDim Half3x3 = (3, 3)"
| "MatrixTypeDim Float3x3 = (3, 3)" | "MatrixTypeDim Double3x3 = (3, 3)"
| "MatrixTypeDim Bool3x4 = (3, 4)" | "MatrixTypeDim Int3x4 = (3, 4)"
| "MatrixTypeDim UInt3x4 = (3, 4)" | "MatrixTypeDim Half3x4 = (3, 4)"
| "MatrixTypeDim Float3x4 = (3, 4)" | "MatrixTypeDim Double3x4 = (3, 4)"
| "MatrixTypeDim Bool4x2 = (4, 2)" | "MatrixTypeDim Int4x2 = (4, 2)"
| "MatrixTypeDim UInt4x2 = (4, 2)" | "MatrixTypeDim Half4x2 = (4, 2)"
| "MatrixTypeDim Float4x2 = (4, 2)" | "MatrixTypeDim Double4x2 = (4, 2)"
| "MatrixTypeDim Bool4x3 = (4, 3)" | "MatrixTypeDim Int4x3 = (4, 3)"
| "MatrixTypeDim UInt4x3 = (4, 3)" | "MatrixTypeDim Half4x3 = (4, 3)"
| "MatrixTypeDim Float4x3 = (4, 3)" | "MatrixTypeDim Double4x3 = (4, 3)"
| "MatrixTypeDim Bool4x4 = (4, 4)" | "MatrixTypeDim Int4x4 = (4, 4)"
| "MatrixTypeDim UInt4x4 = (4, 4)" | "MatrixTypeDim Half4x4 = (4, 4)"
| "MatrixTypeDim Float4x4 = (4, 4)" | "MatrixTypeDim Double4x4 = (4, 4)"
| "MatrixTypeDim _ = (0, 0)"

text \<open>
  \<open>BaseDataType\<close>: the macro \<open>FIND_BASETYPE\<close> expanded for the six base types, in the
  source's order.
\<close>

definition FIND_BASETYPE :: "DataType \<Rightarrow> DataType \<Rightarrow> DataType \<Rightarrow> DataType \<Rightarrow> DataType \<Rightarrow> bool"
  where
  "FIND_BASETYPE t v2 v4 m2x2 m4x4 \<longleftrightarrow>
     (Idx t \<ge> Idx v2 \<and> Idx t \<le> Idx v4) \<or> (Idx t \<ge> Idx m2x2 \<and> Idx t \<le> Idx m4x4)"

definition BaseDataType :: "DataType \<Rightarrow> DataType" where
  "BaseDataType t =
     (if FIND_BASETYPE t Bool2 Bool4 Bool2x2 Bool4x4 then Bool
      else if FIND_BASETYPE t Int2 Int4 Int2x2 Int4x4 then Int'
      else if FIND_BASETYPE t UInt2 UInt4 UInt2x2 UInt4x4 then UInt
      else if FIND_BASETYPE t Half2 Half4 Half2x2 Half4x4 then Half
      else if FIND_BASETYPE t Float2 Float4 Float2x2 Float4x4 then Float
      else if FIND_BASETYPE t Double2 Double4 Double2x2 Double4x4 then Double
      else t)"

definition VectorDataType :: "DataType \<Rightarrow> int \<Rightarrow> DataType" where
  "VectorDataType baseDataType vectorSize =
     (if IsScalarType baseDataType then
        (if vectorSize \<ge> 2 \<and> vectorSize \<le> 4 then
           (let offset = Idx baseDataType - Idx Bool;
                idx = Idx Bool2 + offset * 3 + (vectorSize - 2)
            in DataType_of_Idx idx)
         else if vectorSize = 1 then baseDataType
         else Undefined)
      else Undefined)"

definition MatrixDataType :: "DataType \<Rightarrow> int \<Rightarrow> int \<Rightarrow> DataType" where
  "MatrixDataType baseDataType rows columns =
     (if IsScalarType baseDataType then
        (if rows = 1 \<and> columns = 1 then baseDataType
         else if rows = 1 then VectorDataType baseDataType columns
         else if columns = 1 then VectorDataType baseDataType rows
         else if rows \<ge> 2 \<and> rows \<le> 4 \<and> columns \<ge> 2 \<and> columns \<le> 4 then
           (let offset = Idx baseDataType - Idx Bool;
                idx = Idx Bool2x2 + offset * 9 + (rows - 2) * 3 + (columns - 2)
            in DataType_of_Idx idx)
         else Undefined)
      else Undefined)"


subsection \<open>Errors\<close>

text \<open>
  \<open>InvalidArg\<close> throws \<open>std::invalid_argument\<close> with a message built by a report
  macro \<open>R_...\<close> of ReportIdents.h, which is not among the sources: the error value keeps
  the macro's name and its arguments (the data type in place of its \<open>DataTypeToString\<close>).
  The generator's \<open>Error\<close> throws a report with the message text.
\<close>

datatype report =
    R_VectorSubscriptCantHaveNComps nat
  | R_InvalidVectorDimension int
  | R_InvalidVectorSubscript string DataType
  | R_InvalidMatrixDimension int int
  | R_IncompleteMatrixSubscript string
  | R_InvalidCharInMatrixSubscript string string "string option"

datatype failure = InvalidArg report | Error string

subsection \<open>Strings\<close>

text \<open>
  \<open>s[i]\<close> on a \<open>const std::string\<close>: the character at \<open>i\<close>, and the terminating
  null character at \<open>i = s.size()\<close>.
\<close>

definition string_at :: "string \<Rightarrow> nat \<Rightarrow> char" where
  "string_at s i = (if i < length s then s ! i else CHR 0x00)"

text \<open>\<open>s.resize(n)\<close> truncates to \<open>n\<close> characters or pads with null characters.\<close>

definition resize :: "string \<Rightarrow> nat \<Rightarrow> string" where
  "resize s n = take n s @ replicate (n - length s) (CHR 0x00)"

subsection \<open>Subscripts of vectors and matrices\<close>

text \<open>
  The lambda \<open>IsValidSubscript\<close> of \<open>SubscriptDataTypeVector\<close>, with the captured
  \<open>subscript\<close> as first argument. \<open>compareSubscript.find(chr) == npos\<close> holds when
  \<open>chr\<close> does not occur in \<open>compareSubscript\<close>.
\<close>

fun IsValidSubscript_loop :: "string \<Rightarrow> string \<Rightarrow> bool" where
  "IsValidSubscript_loop compareSubscript [] = True"
| "IsValidSubscript_loop compareSubscript (chr # rest) =
     (if chr \<notin> set compareSubscript then False
      else IsValidSubscript_loop compareSubscript rest)"

definition IsValidSubscript :: "string \<Rightarrow> string \<Rightarrow> int \<Rightarrow> bool" where
  "IsValidSubscript subscript compareSubscript vectorSize =
     IsValidSubscript_loop (resize compareSubscript (nat vectorSize)) subscript"

definition SubscriptDataTypeVector :: "DataType \<Rightarrow> string \<Rightarrow> int \<Rightarrow> failure + DataType" where
  "SubscriptDataTypeVector dataType subscript vectorSize =
     (let subscriptSize = length subscript in
      if subscriptSize < 1 \<or> subscriptSize > 4 then
        Inl (InvalidArg (R_VectorSubscriptCantHaveNComps subscriptSize))
      else if vectorSize < 1 \<or> vectorSize > 4 then
        Inl (InvalidArg (R_InvalidVectorDimension vectorSize))
      else
        (let validSubscript =
               (IsValidSubscript subscript ''xyzw'' vectorSize \<or>
                IsValidSubscript subscript ''rgba'' vectorSize)
         in if \<not> validSubscript then
              Inl (InvalidArg (R_InvalidVectorSubscript subscript dataType))
            else Inr (VectorDataType (BaseDataType dataType) (int subscriptSize))))"

text \<open>
  The lambda \<open>ParseNextSubscript\<close> of \<open>SubscriptDataTypeMatrix\<close>; it returns the
  advanced index \<open>i\<close>. \<open>ParseDigits\<close> is its loop \<open>for (int j = 0; j < 2; ++j)\<close>, with
  the number of iterations left as last argument. Characters are compared by their
  codes (with a signed \<open>char\<close> a byte above 127 fails the lower bound instead of the
  upper one; it is rejected either way).
\<close>

fun ParseDigits :: "string \<Rightarrow> nat \<Rightarrow> nat \<Rightarrow> nat \<Rightarrow> failure + nat" where
  "ParseDigits s i zeroBase 0 = Inr i"
| "ParseDigits s i zeroBase (Suc k) =
     (if (of_char (string_at s i) :: nat) < of_char (CHR ''0'') + zeroBase \<or>
         (of_char (string_at s i) :: nat) > of_char (CHR ''3'') + zeroBase then
        Inl (InvalidArg (R_InvalidCharInMatrixSubscript [string_at s i] s
          (Some (if zeroBase = 0 then ''zero'' else ''one''))))
      else ParseDigits s (i + 1) zeroBase k)"

definition ParseNextSubscript :: "string \<Rightarrow> nat \<Rightarrow> failure + nat" where
  "ParseNextSubscript s i =
     (if i + 3 > length s then Inl (InvalidArg (R_IncompleteMatrixSubscript s))
      else if string_at s i \<noteq> CHR ''_'' then
        Inl (InvalidArg (R_InvalidCharInMatrixSubscript [string_at s i] s None))
      else
        (let i1 = i + 1 in
         if string_at s i1 = CHR ''m'' then
           (let i2 = i1 + 1 in
            if i2 + 2 > length s then Inl (InvalidArg (R_IncompleteMatrixSubscript s))
            else ParseDigits s i2 0 2)
         else ParseDigits s i1 1 2))"

text \<open>
  The loop \<open>for (std::size_t i = 0; i < subscript.size(); ++vectorSize)
  ParseNextSubscript(subscript, i)\<close>.
\<close>

function ParseAllSubscripts :: "string \<Rightarrow> nat \<Rightarrow> int \<Rightarrow> failure + int" where
  "ParseAllSubscripts subscript i vectorSize =
     (if i < length subscript then
        (case ParseNextSubscript subscript i of
           Inl e \<Rightarrow> Inl e
         | Inr i' \<Rightarrow> ParseAllSubscripts subscript i' (vectorSize + 1))
      else Inr vectorSize)"
  by pat_completeness auto
termination
  by (relation "measure (\<lambda>(subscript, i, vectorSize). length subscript - i)")
     (auto simp: ParseNextSubscript_def Let_def numeral_2_eq_2 split: if_splits)

definition SubscriptDataTypeMatrix ::
  "DataType \<Rightarrow> string \<Rightarrow> int \<Rightarrow> int \<Rightarrow> failure + DataType" where
  "SubscriptDataTypeMatrix dataType subscript rows cols =
     (if rows < 1 \<or> rows > 4 \<or> cols < 1 \<or> cols > 4 then
        Inl (InvalidArg (R_InvalidMatrixDimension rows cols))
      else
        (case ParseAllSubscripts subscript 0 0 of
           Inl e \<Rightarrow> Inl e
         | Inr vectorSize \<Rightarrow> Inr (VectorDataType (BaseDataType dataType) vectorSize)))"

definition SubscriptDataType :: "DataType \<Rightarrow> string \<Rightarrow> failure + DataType" where
  "SubscriptDataType dataType subscript =
     (let matrixDim = MatrixTypeDim dataType in
      if snd matrixDim = 1 then SubscriptDataTypeVector dataType subscript (fst matrixDim)
      else SubscriptDataTypeMatrix dataType subscript (fst matrixDim) (snd matrixDim))"

subsection \<open>Data types of literal tokens\<close>

text \<open>
  Modelled from the spec: the class \<open>Token\<close> is declared in Token.h, which is not among
  the sources. A token has a kind, from a closed set (3.2), and the exact lexeme text;
  \<open>Type\<close> and \<open>Spell\<close> read them. The kinds listed are the four that \<open>TokenToDataType\<close>
  names and the others of (3.2).
\<close>

datatype TokenTypes =
  Ident | Keyword | BoolLiteral | IntLiteral | FloatLiteral | StringLiteral | Punctuation

record Token =
  Type :: TokenTypes
  Spell :: string

definition IntLiteralTokenToDataType :: "Token \<Rightarrow> DataType" where
  "IntLiteralTokenToDataType tkn =
     (let s = Spell tkn in
      if s \<noteq> [] then
        (if last s = CHR ''u'' \<or> last s = CHR ''U'' then UInt else Int')
      else Int')"

definition FloatLiteralTokenToDataType :: "Token \<Rightarrow> DataType" where
  "FloatLiteralTokenToDataType tkn =
     (let s = Spell tkn in
      if s \<noteq> [] then
        (if last s = CHR ''f'' \<or> last s = CHR ''F'' then Float
         else if last s = CHR ''h'' \<or> last s = CHR ''H'' then Half
         else Double)
      else Double)"

fun TokenToDataType_Types :: "TokenTypes \<Rightarrow> Token \<Rightarrow> DataType" where
  "TokenToDataType_Types BoolLiteral tkn = Bool"
| "TokenToDataType_Types IntLiteral tkn = IntLiteralTokenToDataType tkn"
| "TokenToDataType_Types FloatLiteral tkn = FloatLiteralTokenToDataType tkn"
| "TokenToDataType_Types StringLiteral tkn = String"
| "TokenToDataType_Types _ tkn = Undefined"

definition TokenToDataType :: "Token \<Rightarrow> DataType" where
  "TokenToDataType tkn = TokenToDataType_Types (Type tkn) tkn"

subsection \<open>The two formats of a matrix component\<close>

text \<open>
  A zero-based component is \<open>_mRC\<close> with \<open>R\<close> and \<open>C\<close> in \<open>0..3\<close>, a one-based
  component is \<open>_RC\<close> with \<open>R\<close> and \<open>C\<close> in \<open>1..4\<close> (the comment of
  \<open>SubscriptDataTypeMatrix\<close>: zero-based "_m00", or one-based "_11").
\<close>

definition zero_based_component :: "string \<Rightarrow> bool" where
  "zero_based_component p \<longleftrightarrow>
     (case p of
        [u, m, r, c] \<Rightarrow> u = CHR ''_'' \<and> m = CHR ''m'' \<and> r \<in> set ''0123'' \<and> c \<in> set ''0123''
      | _ \<Rightarrow> False)"

definition one_based_component :: "string \<Rightarrow> bool" where
  "one_based_component p \<longleftrightarrow>
     (case p of
        [u, r, c] \<Rightarrow> u = CHR ''_'' \<and> r \<in> set ''1234'' \<and> c \<in> set ''1234''
      | _ \<Rightarrow> False)"

subsection \<open>Semantics and indexed semantics\<close>

text \<open>
  Modelled from the spec: the enumeration \<open>Semantic\<close> is declared in ASTEnums.h, which is
  not among the sources; a semantic is one of a closed set of system values or
  \<open>UserDefined\<close> (3.6). The enumerators are the ones \<open>SemanticToString\<close> names.
\<close>

datatype Semantic =
    Undefined | UserDefined
  | ClipDistance | CullDistance | Coverage | Depth | DepthGreaterEqual | DepthLessEqual
  | DispatchThreadID | DomainLocation | GroupID | GroupIndex | GroupThreadID | GSInstanceID
  | InnerCoverage | InsideTessFactor | InstanceID | IsFrontFace | OutputControlPointID
  | FragCoord | PrimitiveID | RenderTargetArrayIndex | SampleIndex | StencilRef | Target
  | TessFactor | VertexID | VertexPosition | ViewportArrayIndex

text \<open>
  \<open>R_Undefined\<close> and \<open>R_UserDefined\<close> are report macros of ReportIdents.h, which is
  not among the sources: the two texts are parameters. The macro \<open>CASE_TO_STRING\<close>
  is expanded.
\<close>

fun SemanticToString :: "string \<Rightarrow> string \<Rightarrow> Semantic \<Rightarrow> string" where
  "SemanticToString R_Undefined R_UserDefined Undefined = R_Undefined"
| "SemanticToString R_Undefined R_UserDefined UserDefined = R_UserDefined"
| "SemanticToString _ _ ClipDistance = ''SV_'' @ ''ClipDistance''"
| "SemanticToString _ _ CullDistance = ''SV_'' @ ''CullDistance''"
| "SemanticToString _ _ Coverage = ''SV_'' @ ''Coverage''"
| "SemanticToString _ _ Depth = ''SV_'' @ ''Depth''"
| "SemanticToString _ _ DepthGreaterEqual = ''SV_'' @ ''DepthGreaterEqual''"
| "SemanticToString _ _ DepthLessEqual = ''SV_'' @ ''DepthLessEqual''"
| "SemanticToString _ _ DispatchThreadID = ''SV_'' @ ''DispatchThreadID''"
| "SemanticToString _ _ DomainLocation = ''SV_'' @ ''DomainLocation''"
| "SemanticToString _ _ GroupID = ''SV_'' @ ''GroupID''"
| "SemanticToString _ _ GroupIndex = ''SV_'' @ ''GroupIndex''"
| "SemanticToString _ _ GroupThreadID = ''SV_'' @ ''GroupThreadID''"
| "SemanticToString _ _ GSInstanceID = ''SV_'' @ ''GSInstanceID''"
| "SemanticToString _ _ InnerCoverage = ''SV_'' @ ''InnerCoverage''"
| "SemanticToString _ _ InsideTessFactor = ''SV_'' @ ''InsideTessFactor''"
| "SemanticToString _ _ InstanceID = ''SV_'' @ ''InstanceID''"
| "SemanticToString _ _ IsFrontFace = ''SV_'' @ ''IsFrontFace''"
| "SemanticToString _ _ OutputControlPointID = ''SV_'' @ ''OutputControlPointID''"
| "SemanticToString _ _ FragCoord = ''SV_'' @ ''FragCoord''"
| "SemanticToString _ _ PrimitiveID = ''SV_'' @ ''PrimitiveID''"
| "SemanticToString _ _ RenderTargetArrayIndex = ''SV_'' @ ''RenderTargetArrayIndex''"
| "SemanticToString _ _ SampleIndex = ''SV_'' @ ''SampleIndex''"
| "SemanticToString _ _ StencilRef = ''SV_'' @ ''StencilRef''"
| "SemanticToString _ _ Target = ''SV_'' @ ''Target''"
| "SemanticToString _ _ TessFactor = ''SV_'' @ ''TessFactor''"
| "SemanticToString _ _ VertexID = ''SV_'' @ ''VertexID''"
| "SemanticToString _ _ VertexPosition = ''SV_'' @ ''VertexPosition''"
| "SemanticToString _ _ ViewportArrayIndex = ''SV_'' @ ''ViewportArrayIndex''"

text \<open>
  The class \<open>IndexedSemantic\<close> with its members \<open>semantic_\<close>, \<open>index_\<close> (an
  \<open>int\<close> of 32 bits: \<open>INT_MIN\<close>..\<open>INT_MAX\<close>) and \<open>userDefined_\<close>; the fields are
  named without the trailing underscore.
\<close>

record IndexedSemantic =
  semantic :: Semantic
  index :: int
  userDefined :: string

text \<open>The constructor \<open>IndexedSemantic(Semantic semantic, int index)\<close>.\<close>

definition IndexedSemantic_of_Semantic :: "Semantic \<Rightarrow> int \<Rightarrow> IndexedSemantic" where
  "IndexedSemantic_of_Semantic sem idx =
     \<lparr>semantic = sem, index = idx, userDefined = []\<rparr>"

text \<open>
  \<open>s.find_last_not_of(cs)\<close>: the position of the last character of \<open>s\<close> that is not
  one of \<open>cs\<close>; \<open>None\<close> is \<open>std::string::npos\<close>.
\<close>

definition find_last_not_of :: "string \<Rightarrow> string \<Rightarrow> nat option" where
  "find_last_not_of s cs =
     (case dropWhile (\<lambda>c. c \<in> set cs) (rev s) of
        [] \<Rightarrow> None
      | _ # r \<Rightarrow> Some (length r))"

text \<open>The C library's \<open>isdigit\<close>, \<open>isspace\<close> and \<open>toupper\<close> in the C locale.\<close>

definition isdigit :: "char \<Rightarrow> bool" where
  "isdigit c \<longleftrightarrow> of_char (CHR ''0'') \<le> (of_char c :: nat) \<and> (of_char c :: nat) \<le> of_char (CHR ''9'')"

definition isspace :: "char \<Rightarrow> bool" where
  "isspace c \<longleftrightarrow> c \<in> {CHR '' '', CHR 0x09, CHR 0x0A, CHR 0x0B, CHR 0x0C, CHR 0x0D}"

definition toupper :: "char \<Rightarrow> char" where
  "toupper c =
     (if of_char (CHR ''a'') \<le> (of_char c :: nat) \<and> (of_char c :: nat) \<le> of_char (CHR ''z'')
      then char_of ((of_char c :: nat) - 32) else c)"

definition INT_MIN :: int where "INT_MIN = - 2147483648"
definition INT_MAX :: int where "INT_MAX = 2147483647"

text \<open>
  \<open>std::atoi(str.c_str())\<close>: the C string ends at the first null character; white space
  is skipped, then an optional sign and the decimal digits are read. The value is
  \<open>None\<close> where it is not representable as an \<open>int\<close> (the behaviour is undefined).
\<close>

fun atoi_digits :: "int \<Rightarrow> string \<Rightarrow> int" where
  "atoi_digits acc [] = acc"
| "atoi_digits acc (c # cs) =
     (if isdigit c then atoi_digits (acc * 10 + (int (of_char c) - int (of_char (CHR ''0'')))) cs
      else acc)"

definition atoi :: "string \<Rightarrow> int option" where
  "atoi str =
     (let s = dropWhile isspace (takeWhile (\<lambda>c. c \<noteq> CHR 0x00) str);
          v = (case s of
                 [] \<Rightarrow> 0
               | c # cs \<Rightarrow>
                   if c = CHR ''-'' then - atoi_digits 0 cs
                   else if c = CHR ''+'' then atoi_digits 0 cs
                   else atoi_digits 0 s)
      in if INT_MIN \<le> v \<and> v \<le> INT_MAX then Some v else None)"

text \<open>\<open>std::to_string\<close> of an \<open>int\<close>: the decimal digits, after a minus sign if negative.\<close>

definition digit_char :: "nat \<Rightarrow> char" where
  "digit_char d = char_of (of_char (CHR ''0'') + d)"

function to_string_nat :: "nat \<Rightarrow> string" where
  "to_string_nat n =
     (if n < 10 then [digit_char n] else to_string_nat (n div 10) @ [digit_char (n mod 10)])"
  by pat_completeness auto
termination
  by (relation "measure id") auto

definition to_string :: "int \<Rightarrow> string" where
  "to_string v = (if v < 0 then CHR ''-'' # to_string_nat (nat (- v)) else to_string_nat (nat v))"

text \<open>
  The constructor \<open>IndexedSemantic(const std::string& userDefined)\<close>.

  Modelled from the spec: where the text has no index the constructor leaves \<open>index_\<close>
  to its in-class initialiser, in ASTEnums.h, which is not among the sources; it is
  taken as \<open>0\<close>, the value \<open>Reset\<close> assigns.
\<close>

definition IndexedSemantic_of_string :: "string \<Rightarrow> IndexedSemantic option" where
  "IndexedSemantic_of_string ud =
     (case find_last_not_of ud ''0123456789'' of
        Some pos \<Rightarrow>
          if pos + 1 < length ud then
            (let pos' = pos + 1;
                 indexStr = drop pos' ud
             in map_option
                  (\<lambda>i. \<lparr>semantic = UserDefined, index = i, userDefined = take pos' ud\<rparr>)
                  (atoi indexStr))
          else Some \<lparr>semantic = UserDefined, index = 0, userDefined = ud\<rparr>
      | None \<Rightarrow> Some \<lparr>semantic = UserDefined, index = 0, userDefined = ud\<rparr>)"

text \<open>\<open>IndexedSemantic::ToString\<close>.\<close>

definition ToString :: "string \<Rightarrow> string \<Rightarrow> IndexedSemantic \<Rightarrow> string" where
  "ToString R_Undefined R_UserDefined this =
     (let s = (if semantic this = UserDefined then map toupper (userDefined this)
               else SemanticToString R_Undefined R_UserDefined (semantic this))
      in s @ to_string (index this))"

section \<open>The GLSL generator (GLSLGenerator)\<close>

text \<open>
  Modelled from the spec: the enumeration \<open>Intrinsic\<close> is declared in ASTEnums.h, which
  is not among the sources. The enumerators listed are the ones that ASTEnums.cpp and
  GLSLGenerator.cpp name.
\<close>

datatype Intrinsic =
    Undefined | Abort | Clip | Mul | Rcp | Trunc
  | InterlockedAdd | InterlockedXor
  | Texture_GetDimensions | Texture_QueryLodUnclamped
  | StreamOutput_Append | StreamOutput_RestartStrip

text \<open>The member \<open>usedIntrinsics\<close> of \<open>Program\<close>, a \<open>std::map\<close> from intrinsics to usages.\<close>

record 'u Program =
  usedIntrinsics :: "Intrinsic \<rightharpoonup> 'u"

text \<open>
  Modelled from the spec: the writer of the base class \<open>Generator\<close> is not among the
  sources. The emitter produces a text stream (4.6) with newline line endings (6):
  \<open>Write\<close> appends a text, \<open>WriteLn\<close> a line and \<open>Blank\<close> an empty line. The
  indentation is empty where the functions below write lines, outside every scope.
\<close>

type_synonym writer = string

definition Write :: "string \<Rightarrow> writer \<Rightarrow> writer" where
  "Write text out = out @ text"

definition WriteLn :: "string \<Rightarrow> writer \<Rightarrow> writer" where
  "WriteLn text out = out @ text @ [CHR 0x0A]"

definition Blank :: "writer \<Rightarrow> writer" where
  "Blank out = out @ [CHR 0x0A]"

text \<open>The lines of a text stream.\<close>

fun lines_of :: "string \<Rightarrow> string list" where
  "lines_of [] = []"
| "lines_of (c # cs) =
     (if c = CHR 0x0A then [] # lines_of cs
      else (case lines_of cs of [] \<Rightarrow> [[c]] | l # ls \<Rightarrow> (c # l) # ls))"

text \<open>
  \<open>EstablishMaps\<close>: the entries of the map \<open>texFuncMap_\<close>, as the source spells them;
  \<open>map_of\<close> looks a key up.
\<close>

definition texFuncMap :: "(string \<times> string) list" where
  "texFuncMap =
     [(''GetDimensions '', ''textureSize''),
      (''Load'', ''texelFetch''),
      (''Sample'', ''texture''),
      (''SampleBias'', ''textureOffset''),
      (''SampleGrad'', ''textureGrad''),
      (''SampleLevel'', ''textureLod'')]"

text \<open>The lambda \<open>Used\<close> of \<open>AppendAllReferencedIntrinsics\<close>.\<close>

definition Used :: "'u Program \<Rightarrow> Intrinsic \<Rightarrow> bool" where
  "Used ast intr \<longleftrightarrow> usedIntrinsics ast intr \<noteq> None"

definition AppendClipIntrinsics :: "writer \<Rightarrow> writer" where
  "AppendClipIntrinsics out =
     Blank
       (foldl
          (\<lambda>out typeName.
             WriteLn (''void clip('' @ typeName @ '' x) { if (any(lessThan(x, '' @ typeName @
               ''(0.0)))) discard; }'') out)
          (WriteLn ''void clip(float x) { if (x < 0.0) discard; }'' out)
          [''vec2'', ''vec3'', ''vec4''])"

definition AppendAllReferencedIntrinsics :: "'u Program \<Rightarrow> writer \<Rightarrow> writer" where
  "AppendAllReferencedIntrinsics ast out =
     (if Used ast Clip then AppendClipIntrinsics out else out)"

text \<open>
  \<open>ValidateRegisterPrefix\<close>; \<open>Error\<close> throws. \<open>std::string(1, c)\<close> is the text of
  the one character \<open>c\<close>; the character \<open>0x27\<close> is the single quote.
\<close>

definition ValidateRegisterPrefix :: "string \<Rightarrow> char \<Rightarrow> failure + unit" where
  "ValidateRegisterPrefix registerName prefix =
     (if registerName = [] \<or> string_at registerName 0 \<noteq> prefix then
        Inl (Error (''invalid register prefix '' @ [CHR 0x27] @ [string_at registerName 0] @
          [CHR 0x27] @ '' (expected '' @ [CHR 0x27] @ [prefix] @ [CHR 0x27] @ '')''))
      else Inr ())"

text \<open>
  A \<open>VarIdent\<close> with its identifier \<open>ident\<close> and the next identifier \<open>next\<close> of the
  chain (written \<open>next'\<close>), and a \<open>FunctionCall\<close> with its identifier chain and
  arguments. \<open>WriteFunctionCallIntrinsicTex\<close> reads \<open>ast->varIdent\<close> unchecked: the chain
  is present.
\<close>

datatype VarIdent = VarIdent (ident: string) (next': "VarIdent option")

record 'e FunctionCall =
  varIdent :: VarIdent
  arguments :: "'e list"

text \<open>
  The loop over the arguments of \<open>WriteFunctionCallIntrinsicTex\<close>. \<open>Visit\<close> writes an
  argument expression; it is a parameter.
\<close>

fun WriteArguments ::
  "('e \<Rightarrow> writer \<Rightarrow> failure + writer) \<Rightarrow> 'e list \<Rightarrow> writer \<Rightarrow> failure + writer" where
  "WriteArguments Visit [] out = Inr out"
| "WriteArguments Visit (arg # rest) out =
     (case Visit arg out of
        Inl e \<Rightarrow> Inl e
      | Inr out' \<Rightarrow>
          WriteArguments Visit rest (if rest \<noteq> [] then Write '', '' out' else out'))"

text \<open>
  \<open>WriteFunctionCallIntrinsicTex\<close>; the character \<open>0x22\<close> is the double quote.
\<close>

definition WriteFunctionCallIntrinsicTex ::
  "('e \<Rightarrow> writer \<Rightarrow> failure + writer) \<Rightarrow> 'e FunctionCall \<Rightarrow> writer \<Rightarrow> failure + writer" where
  "WriteFunctionCallIntrinsicTex Visit ast out =
     (case next' (varIdent ast) of
        None \<Rightarrow> Inl (Error ''missing member function in texture intrinsic'')
      | Some member \<Rightarrow>
          (let memberFuncName = ident member in
           case map_of texFuncMap memberFuncName of
             None \<Rightarrow>
               Inl (Error (''texture member function '' @ [CHR 0x22] @ memberFuncName @
                 [CHR 0x22] @ '' is not supported''))
           | Some funcName \<Rightarrow>
               (case WriteArguments Visit (arguments ast) (Write (funcName @ ''('') out) of
                  Inl e \<Rightarrow> Inl e
                | Inr out' \<Rightarrow> Inr (Write '')'' out'))))"

section \<open>Properties of the data-type algebra\<close>

lemma Idx_DataType_enum: "map Idx DataType_enum = map int [0..<80]"
  by code_simp

lemma length_DataType_enum: "length DataType_enum = 80"
  by (simp add: DataType_enum_def)

lemma Idx_DataType_of_Idx:
  assumes "0 \<le> i" and "i < 80"
  shows "Idx (DataType_of_Idx i) = i"
proof -
  have n: "nat i < length DataType_enum"
    using assms by (simp add: length_DataType_enum)
  have "Idx (DataType_enum ! nat i) = map Idx DataType_enum ! nat i"
    using n by simp
  also have "\<dots> = map int [0..<80] ! nat i"
    by (simp only: Idx_DataType_enum)
  also have "\<dots> = i"
    using assms by simp
  finally show ?thesis
    using assms by (simp add: DataType_of_Idx_def length_DataType_enum)
qed

lemma DataType_of_Idx_Idx: "DataType_of_Idx (Idx t) = t"
  by (cases t) (simp_all add: DataType_of_Idx_def DataType_enum_def)

lemma VectorDataType_idx_in_range:
  "IsScalarType b \<Longrightarrow> 2 \<le> n \<Longrightarrow> n \<le> 4 \<Longrightarrow>
   Idx Bool2 \<le> Idx Bool2 + (Idx b - Idx Bool) * 3 + (n - 2) \<and>
   Idx Bool2 + (Idx b - Idx Bool) * 3 + (n - 2) \<le> Idx Double4"
  by (simp add: IsScalarType_def)

lemma MatrixDataType_idx_in_range:
  "IsScalarType b \<Longrightarrow> 2 \<le> r \<Longrightarrow> r \<le> 4 \<Longrightarrow> 2 \<le> c \<Longrightarrow> c \<le> 4 \<Longrightarrow>
   Idx Bool2x2 \<le> Idx Bool2x2 + (Idx b - Idx Bool) * 9 + (r - 2) * 3 + (c - 2) \<and>
   Idx Bool2x2 + (Idx b - Idx Bool) * 9 + (r - 2) * 3 + (c - 2) \<le> Idx Double4x4"
  by (simp add: IsScalarType_def)

text \<open>
  C2. For every data type \<open>t\<close> that is a vector type, building the vector type of
  \<open>t\<close>'s base type with \<open>t\<close>'s dimension gives \<open>t\<close> back:
  \<open>VectorDataType (BaseDataType t) (VectorTypeDim t) = t\<close>.
\<close>

theorem VectorDataType_of_BaseDataType_VectorTypeDim:
  "IsVectorType t \<Longrightarrow> VectorDataType (BaseDataType t) (VectorTypeDim t) = t"
  by (cases t)
     (simp_all add: IsVectorType_def VectorDataType_def BaseDataType_def FIND_BASETYPE_def
        IsScalarType_def DataType_of_Idx_def DataType_enum_def)

theorem VectorDataType_of_BaseDataType_VectorTypeDim_witness:
  "IsVectorType UInt3 \<and> VectorDataType (BaseDataType UInt3) (VectorTypeDim UInt3) = UInt3"
  using VectorDataType_of_BaseDataType_VectorTypeDim [of UInt3]
  by (simp add: IsVectorType_def)

text \<open>
  C4. For every scalar base type: \<open>VectorDataType base 1\<close> is \<open>base\<close>, and for
  \<open>2 \<le> n \<le> 4\<close> \<open>VectorDataType base n\<close> is the enumerator whose value is
  \<open>Bool2 + (base - Bool) * 3 + (n - 2)\<close>; \<open>MatrixDataType base 1 1\<close> is \<open>base\<close>,
  with one row or one column \<open>MatrixDataType\<close> is the vector type of the other
  dimension, and for \<open>2 \<le> r, c \<le> 4\<close> it is the enumerator whose value is
  \<open>Bool2x2 + (base - Bool) * 9 + (r - 2) * 3 + (c - 2)\<close>.
\<close>

theorem DataType_index_arithmetic:
  assumes "IsScalarType base"
  shows "VectorDataType base 1 = base \<and>
    (2 \<le> n \<and> n \<le> 4 \<longrightarrow>
       VectorDataType base n = DataType_of_Idx (Idx Bool2 + (Idx base - Idx Bool) * 3 + (n - 2)) \<and>
       Idx (VectorDataType base n) = Idx Bool2 + (Idx base - Idx Bool) * 3 + (n - 2)) \<and>
    MatrixDataType base 1 1 = base \<and>
    MatrixDataType base 1 c = VectorDataType base c \<and>
    MatrixDataType base r 1 = VectorDataType base r \<and>
    (2 \<le> r \<and> r \<le> 4 \<and> 2 \<le> c \<and> c \<le> 4 \<longrightarrow>
       MatrixDataType base r c =
         DataType_of_Idx (Idx Bool2x2 + (Idx base - Idx Bool) * 9 + (r - 2) * 3 + (c - 2)) \<and>
       Idx (MatrixDataType base r c) =
         Idx Bool2x2 + (Idx base - Idx Bool) * 9 + (r - 2) * 3 + (c - 2))"
proof -
  have v1: "VectorDataType base 1 = base"
    using assms by (simp add: VectorDataType_def)
  have vn: "VectorDataType base n =
        DataType_of_Idx (Idx Bool2 + (Idx base - Idx Bool) * 3 + (n - 2)) \<and>
      Idx (VectorDataType base n) = Idx Bool2 + (Idx base - Idx Bool) * 3 + (n - 2)"
    if "2 \<le> n \<and> n \<le> 4"
  proof -
    have eq: "VectorDataType base n =
        DataType_of_Idx (Idx Bool2 + (Idx base - Idx Bool) * 3 + (n - 2))"
      using assms that by (simp add: VectorDataType_def Let_def)
    have "Idx (DataType_of_Idx (Idx Bool2 + (Idx base - Idx Bool) * 3 + (n - 2))) =
        Idx Bool2 + (Idx base - Idx Bool) * 3 + (n - 2)"
      using VectorDataType_idx_in_range [OF assms, of n] that
      by (intro Idx_DataType_of_Idx) simp_all
    with eq show ?thesis by simp
  qed
  have m11: "MatrixDataType base 1 1 = base"
    using assms by (simp add: MatrixDataType_def)
  have m1c: "MatrixDataType base 1 c = VectorDataType base c"
    using assms by (simp add: MatrixDataType_def VectorDataType_def)
  have mr1: "MatrixDataType base r 1 = VectorDataType base r"
    using assms by (simp add: MatrixDataType_def VectorDataType_def)
  have mrc: "MatrixDataType base r c =
        DataType_of_Idx (Idx Bool2x2 + (Idx base - Idx Bool) * 9 + (r - 2) * 3 + (c - 2)) \<and>
      Idx (MatrixDataType base r c) =
        Idx Bool2x2 + (Idx base - Idx Bool) * 9 + (r - 2) * 3 + (c - 2)"
    if "2 \<le> r \<and> r \<le> 4 \<and> 2 \<le> c \<and> c \<le> 4"
  proof -
    have eq: "MatrixDataType base r c =
        DataType_of_Idx (Idx Bool2x2 + (Idx base - Idx Bool) * 9 + (r - 2) * 3 + (c - 2))"
      using assms that by (simp add: MatrixDataType_def Let_def)
    have "Idx (DataType_of_Idx
          (Idx Bool2x2 + (Idx base - Idx Bool) * 9 + (r - 2) * 3 + (c - 2))) =
        Idx Bool2x2 + (Idx base - Idx Bool) * 9 + (r - 2) * 3 + (c - 2)"
      using MatrixDataType_idx_in_range [OF assms, of r c] that
      by (intro Idx_DataType_of_Idx) simp_all
    with eq show ?thesis by simp
  qed
  from v1 vn m11 m1c mr1 mrc show ?thesis by blast
qed

theorem DataType_index_arithmetic_witness:
  "IsScalarType Half \<and> VectorDataType Half 1 = Half \<and>
   (2 \<le> (3::int) \<and> (3::int) \<le> 4) \<and> VectorDataType Half 3 = Half3 \<and>
   Idx (VectorDataType Half 3) = Idx Bool2 + (Idx Half - Idx Bool) * 3 + (3 - 2) \<and>
   MatrixDataType Half 1 1 = Half \<and>
   MatrixDataType Half 1 4 = Half4 \<and>
   MatrixDataType Half 3 1 = Half3 \<and>
   (2 \<le> (3::int) \<and> (3::int) \<le> 4 \<and> 2 \<le> (4::int) \<and> (4::int) \<le> 4) \<and>
   MatrixDataType Half 3 4 = Half3x4 \<and>
   Idx (MatrixDataType Half 3 4) = Idx Bool2x2 + (Idx Half - Idx Bool) * 9 + (3 - 2) * 3 + (4 - 2)"
proof -
  have s: "IsScalarType Half"
    by (simp add: IsScalarType_def)
  have v: "VectorDataType Half 3 = Half3" "VectorDataType Half 4 = Half4"
    by (simp_all add: VectorDataType_def IsScalarType_def DataType_of_Idx_def DataType_enum_def)
  have m: "MatrixDataType Half 3 4 = Half3x4"
    by (simp add: MatrixDataType_def IsScalarType_def DataType_of_Idx_def DataType_enum_def)
  show ?thesis
    using s v m DataType_index_arithmetic [OF s, of 3 4 3] by simp
qed


section \<open>Properties of subscripts\<close>

declare ParseAllSubscripts.simps [simp del]

text \<open>
  C8. \<open>SubscriptDataType\<close> applied to the scalar type \<open>Float\<close> and the subscript
  \<open>xyzw\<close> rejects the subscript with an error; applied to \<open>Float\<close> and the subscript
  \<open>x\<close> it succeeds and returns \<open>Float\<close>.
\<close>

theorem SubscriptDataType_Float_xyzw_x:
  "SubscriptDataType Float ''xyzw'' = Inl (InvalidArg (R_InvalidVectorSubscript ''xyzw'' Float)) \<and>
   SubscriptDataType Float ''x'' = Inr Float"
  by (simp add: SubscriptDataType_def SubscriptDataTypeVector_def IsValidSubscript_def resize_def
      VectorDataType_def BaseDataType_def FIND_BASETYPE_def IsScalarType_def Let_def)

lemma scalar_or_vector_dim:
  "IsScalarType t \<or> IsVectorType t \<Longrightarrow>
   1 \<le> VectorTypeDim t \<and> VectorTypeDim t \<le> 4 \<and> IsScalarType (BaseDataType t)"
  by (cases t)
     (simp_all add: IsScalarType_def IsVectorType_def BaseDataType_def FIND_BASETYPE_def)

lemma IsValidSubscript_loop_iff: "IsValidSubscript_loop cmp s \<longleftrightarrow> set s \<subseteq> set cmp"
  by (induction s) simp_all

lemma resize_take: "n \<le> length s \<Longrightarrow> resize s n = take n s"
  by (simp add: resize_def)

lemma VectorDataType_Base_Dim:
  assumes "IsScalarType b" and "1 \<le> k" and "k \<le> 4"
  shows "BaseDataType (VectorDataType b k) = b \<and> VectorTypeDim (VectorDataType b k) = k"
proof -
  have k: "k = 1 \<or> k = 2 \<or> k = 3 \<or> k = 4"
    using assms(2,3) by arith
  from assms(1) have b: "b = Bool \<or> b = Int' \<or> b = UInt \<or> b = Half \<or> b = Float \<or> b = Double"
    by (cases b) (simp_all add: IsScalarType_def)
  from k b show ?thesis
    by (elim disjE)
       (simp_all add: VectorDataType_def IsScalarType_def DataType_of_Idx_def DataType_enum_def
          BaseDataType_def FIND_BASETYPE_def)
qed

text \<open>
  C9. For every scalar or vector type \<open>t\<close> of dimension \<open>n\<close> and every subscript of
  length 1 to 4 whose characters are all among the first \<open>n\<close> characters of \<open>xyzw\<close>,
  or all among the first \<open>n\<close> characters of \<open>rgba\<close>, \<open>SubscriptDataTypeVector\<close>
  accepts the subscript, also when characters repeat, and returns the vector type
  over the base type of \<open>t\<close> whose dimension is the length of the subscript.
\<close>

theorem SubscriptDataTypeVector_accepts_repeats:
  assumes "IsScalarType t \<or> IsVectorType t"
    and "n = VectorTypeDim t"
    and "1 \<le> length s" and "length s \<le> 4"
    and "set s \<subseteq> set (take (nat n) ''xyzw'') \<or> set s \<subseteq> set (take (nat n) ''rgba'')"
  shows "SubscriptDataTypeVector t s n = Inr (VectorDataType (BaseDataType t) (int (length s))) \<and>
    BaseDataType (VectorDataType (BaseDataType t) (int (length s))) = BaseDataType t \<and>
    VectorTypeDim (VectorDataType (BaseDataType t) (int (length s))) = int (length s)"
proof -
  from scalar_or_vector_dim [OF assms(1)] assms(2)
  have n: "1 \<le> n" "n \<le> 4" and b: "IsScalarType (BaseDataType t)"
    by simp_all
  have "nat n \<le> 4"
    using n by simp
  then have "resize ''xyzw'' (nat n) = take (nat n) ''xyzw''"
    "resize ''rgba'' (nat n) = take (nat n) ''rgba''"
    by (simp_all add: resize_take)
  then have valid: "IsValidSubscript s ''xyzw'' n \<or> IsValidSubscript s ''rgba'' n"
    using assms(5) by (simp add: IsValidSubscript_def IsValidSubscript_loop_iff)
  have "SubscriptDataTypeVector t s n = Inr (VectorDataType (BaseDataType t) (int (length s)))"
    using assms(3,4) n valid by (auto simp: SubscriptDataTypeVector_def Let_def)
  moreover have "1 \<le> int (length s)" "int (length s) \<le> 4"
    using assms(3,4) by simp_all
  ultimately show ?thesis
    using VectorDataType_Base_Dim [OF b] by blast
qed

theorem SubscriptDataTypeVector_accepts_repeats_witness:
  "(IsScalarType Float \<or> IsVectorType Float) \<and> 1 = VectorTypeDim Float \<and>
   1 \<le> length ''xxxx'' \<and> length ''xxxx'' \<le> 4 \<and>
   (set ''xxxx'' \<subseteq> set (take (nat 1) ''xyzw'') \<or> set ''xxxx'' \<subseteq> set (take (nat 1) ''rgba'')) \<and>
   SubscriptDataTypeVector Float ''xxxx'' 1 = Inr Float4 \<and>
   BaseDataType Float4 = Float \<and> VectorTypeDim Float4 = 4"
proof -
  have h: "IsScalarType Float \<or> IsVectorType Float" "1 = VectorTypeDim Float"
    "1 \<le> length ''xxxx''" "length ''xxxx'' \<le> 4"
    "set ''xxxx'' \<subseteq> set (take (nat 1) ''xyzw'') \<or> set ''xxxx'' \<subseteq> set (take (nat 1) ''rgba'')"
    by (simp_all add: IsScalarType_def)
  have b: "BaseDataType Float = Float" "BaseDataType Float4 = Float"
    by (simp_all add: BaseDataType_def FIND_BASETYPE_def)
  have v: "VectorDataType Float 4 = Float4"
    by (simp add: VectorDataType_def IsScalarType_def DataType_of_Idx_def DataType_enum_def)
  show ?thesis
    using h SubscriptDataTypeVector_accepts_repeats [OF h] by (simp add: b v)
qed


lemma string_at_append: "string_at (pre @ xs) (length pre + k) = string_at xs k"
  by (simp add: string_at_def nth_append)

lemma ParseDigits_2: "ParseDigits s i z 2 = ParseDigits s i z (Suc (Suc 0))"
  by (simp only: numeral_2_eq_2)

lemma ParseNextSubscript_zero_based:
  assumes "zero_based_component p"
  shows "ParseNextSubscript (pre @ p @ rest) (length pre) = Inr (length pre + length p)"
proof -
  from assms obtain r c where p: "p = [CHR ''_'', CHR ''m'', r, c]"
    and r: "r \<in> set ''0123''" and c: "c \<in> set ''0123''"
    by (auto simp: zero_based_component_def split: list.splits)
  have at: "string_at (pre @ p @ rest) (length pre) = CHR ''_''"
    "string_at (pre @ p @ rest) (Suc (length pre)) = CHR ''m''"
    "string_at (pre @ p @ rest) (Suc (Suc (length pre))) = r"
    "string_at (pre @ p @ rest) (Suc (Suc (Suc (length pre)))) = c"
    using string_at_append [of pre "p @ rest" 0]
      string_at_append [of pre "p @ rest" "Suc 0"]
      string_at_append [of pre "p @ rest" "Suc (Suc 0)"]
      string_at_append [of pre "p @ rest" "Suc (Suc (Suc 0))"]
    by (simp_all add: p string_at_def)
  have r': "48 \<le> (of_char r :: nat) \<and> (of_char r :: nat) \<le> 51"
    using r by auto
  have c': "48 \<le> (of_char c :: nat) \<and> (of_char c :: nat) \<le> 51"
    using c by auto
  have "ParseDigits (pre @ p @ rest) (length pre + 2) 0 2 = Inr (length pre + 4)"
    using r' c' at by (simp add: ParseDigits_2)
  then show ?thesis
    using at by (simp add: ParseNextSubscript_def Let_def p)
qed

lemma ParseNextSubscript_one_based:
  assumes "one_based_component p"
  shows "ParseNextSubscript (pre @ p @ rest) (length pre) = Inr (length pre + length p)"
proof -
  from assms obtain r c where p: "p = [CHR ''_'', r, c]"
    and r: "r \<in> set ''1234''" and c: "c \<in> set ''1234''"
    by (auto simp: one_based_component_def split: list.splits)
  have at: "string_at (pre @ p @ rest) (length pre) = CHR ''_''"
    "string_at (pre @ p @ rest) (Suc (length pre)) = r"
    "string_at (pre @ p @ rest) (Suc (Suc (length pre))) = c"
    using string_at_append [of pre "p @ rest" 0]
      string_at_append [of pre "p @ rest" "Suc 0"]
      string_at_append [of pre "p @ rest" "Suc (Suc 0)"]
    by (simp_all add: p string_at_def)
  have r': "49 \<le> (of_char r :: nat) \<and> (of_char r :: nat) \<le> 52" and rm: "r \<noteq> CHR ''m''"
    using r by auto
  have c': "49 \<le> (of_char c :: nat) \<and> (of_char c :: nat) \<le> 52"
    using c by auto
  have "ParseDigits (pre @ p @ rest) (length pre + 1) 1 2 = Inr (length pre + 3)"
    using r' c' at by (simp add: ParseDigits_2)
  then show ?thesis
    using at rm by (simp add: ParseNextSubscript_def Let_def p)
qed

lemma ParseAllSubscripts_chain:
  "\<forall>p \<in> set parts. zero_based_component p \<or> one_based_component p \<Longrightarrow>
   ParseAllSubscripts (pre @ concat parts) (length pre) vectorSize =
     Inr (vectorSize + int (length parts))"
proof (induction parts arbitrary: pre vectorSize)
  case Nil
  show ?case
    by (subst ParseAllSubscripts.simps) simp
next
  case (Cons p parts)
  then have wf: "zero_based_component p \<or> one_based_component p"
    by simp
  then have len: "0 < length p"
    by (auto simp: zero_based_component_def one_based_component_def split: list.splits)
  have step: "ParseNextSubscript (pre @ p @ concat parts) (length pre) = Inr (length (pre @ p))"
    using wf ParseNextSubscript_zero_based ParseNextSubscript_one_based by auto
  have "ParseAllSubscripts (pre @ concat (p # parts)) (length pre) vectorSize =
      ParseAllSubscripts ((pre @ p) @ concat parts) (length (pre @ p)) (vectorSize + 1)"
    using len step by (subst ParseAllSubscripts.simps) simp
  also have "\<dots> = Inr (vectorSize + 1 + int (length parts))"
    using Cons.prems by (intro Cons.IH) simp
  finally show ?case
    by simp
qed

lemma MatrixTypeDim_matrix:
  "IsMatrixType t \<Longrightarrow>
   snd (MatrixTypeDim t) \<noteq> 1 \<and> 1 \<le> fst (MatrixTypeDim t) \<and> fst (MatrixTypeDim t) \<le> 4 \<and>
   1 \<le> snd (MatrixTypeDim t) \<and> snd (MatrixTypeDim t) \<le> 4"
  by (cases t) (simp_all add: IsMatrixType_def)

text \<open>
  C1, as amended. For every matrix type \<open>t\<close> and every subscript that is a chain of
  components, each one a zero-based \<open>_mRC\<close> or a one-based \<open>_RC\<close> on its own,
  \<open>SubscriptDataType\<close> reports no error, also when the chain mixes the two bases: it
  returns \<open>VectorDataType\<close> of the base type of \<open>t\<close> and the number of components.
\<close>

theorem SubscriptDataType_matrix_chain_accepted:
  assumes "IsMatrixType t"
    and "\<forall>p \<in> set parts. zero_based_component p \<or> one_based_component p"
  shows "SubscriptDataType t (concat parts) =
    Inr (VectorDataType (BaseDataType t) (int (length parts)))"
proof -
  have "ParseAllSubscripts (concat parts) 0 0 = Inr (int (length parts))"
    using ParseAllSubscripts_chain [OF assms(2), of "[]" 0] by simp
  then show ?thesis
    using MatrixTypeDim_matrix [OF assms(1)]
    by (simp add: SubscriptDataType_def SubscriptDataTypeMatrix_def Let_def)
qed

theorem SubscriptDataType_matrix_chain_accepted_witness:
  "IsMatrixType Float4x4 \<and> zero_based_component ''_m00'' \<and> one_based_component ''_11'' \<and>
   SubscriptDataType Float4x4 (concat [''_m00'', ''_11'']) = Inr Float2"
proof -
  have m: "IsMatrixType Float4x4"
    by (simp add: IsMatrixType_def)
  have wf: "\<forall>p \<in> set [''_m00'', ''_11'']. zero_based_component p \<or> one_based_component p"
    by (simp add: zero_based_component_def one_based_component_def)
  have b: "BaseDataType Float4x4 = Float"
    by (simp add: BaseDataType_def FIND_BASETYPE_def)
  have v: "VectorDataType Float 2 = Float2"
    by (simp add: VectorDataType_def IsScalarType_def DataType_of_Idx_def DataType_enum_def)
  have c: "zero_based_component ''_m00''" "one_based_component ''_11''"
    by (simp_all add: zero_based_component_def one_based_component_def)
  show ?thesis
    using m c SubscriptDataType_matrix_chain_accepted [OF m wf] by (simp add: b v)
qed

text \<open>
  The claim C1 as stated fails: on the matrix type \<open>Float4x4\<close> the subscript
  \<open>_m00_11\<close>, which chains a zero-based with a one-based component, is accepted.
\<close>

theorem SubscriptDataType_mixed_bases_accepted:
  "IsMatrixType Float4x4 \<and> zero_based_component ''_m00'' \<and> one_based_component ''_11'' \<and>
   SubscriptDataType Float4x4 (''_m00'' @ ''_11'') = Inr Float2"
  by code_simp

section \<open>Properties of literal tokens\<close>

text \<open>
  C7. \<open>TokenToDataType\<close> maps an integer literal whose lexeme ends in \<open>u\<close> or \<open>U\<close>
  to \<open>UInt\<close> and every other integer literal to \<open>Int\<close>; it maps a float literal whose
  lexeme ends in \<open>f\<close> or \<open>F\<close> to \<open>Float\<close>, one whose lexeme ends in \<open>h\<close> or \<open>H\<close>
  to \<open>Half\<close>, and every other float literal to \<open>Double\<close>.
\<close>

theorem TokenToDataType_literal_suffix:
  "(Type tkn = IntLiteral \<longrightarrow>
      TokenToDataType tkn =
        (if Spell tkn \<noteq> [] \<and> last (Spell tkn) \<in> {CHR ''u'', CHR ''U''} then UInt else Int')) \<and>
   (Type tkn = FloatLiteral \<longrightarrow>
      TokenToDataType tkn =
        (if Spell tkn \<noteq> [] \<and> last (Spell tkn) \<in> {CHR ''f'', CHR ''F''} then Float
         else if Spell tkn \<noteq> [] \<and> last (Spell tkn) \<in> {CHR ''h'', CHR ''H''} then Half
         else Double))"
  by (simp add: TokenToDataType_def IntLiteralTokenToDataType_def
      FloatLiteralTokenToDataType_def Let_def)

theorem TokenToDataType_literal_suffix_witness:
  "Type \<lparr>Type = IntLiteral, Spell = ''42u''\<rparr> = IntLiteral \<and>
   TokenToDataType \<lparr>Type = IntLiteral, Spell = ''42u''\<rparr> = UInt \<and>
   Type \<lparr>Type = IntLiteral, Spell = ''42''\<rparr> = IntLiteral \<and>
   TokenToDataType \<lparr>Type = IntLiteral, Spell = ''42''\<rparr> = Int' \<and>
   Type \<lparr>Type = FloatLiteral, Spell = ''1.5F''\<rparr> = FloatLiteral \<and>
   TokenToDataType \<lparr>Type = FloatLiteral, Spell = ''1.5F''\<rparr> = Float \<and>
   Type \<lparr>Type = FloatLiteral, Spell = ''1.5h''\<rparr> = FloatLiteral \<and>
   TokenToDataType \<lparr>Type = FloatLiteral, Spell = ''1.5h''\<rparr> = Half \<and>
   Type \<lparr>Type = FloatLiteral, Spell = ''1.5''\<rparr> = FloatLiteral \<and>
   TokenToDataType \<lparr>Type = FloatLiteral, Spell = ''1.5''\<rparr> = Double"
  using TokenToDataType_literal_suffix [of "\<lparr>Type = IntLiteral, Spell = ''42u''\<rparr>"]
    TokenToDataType_literal_suffix [of "\<lparr>Type = IntLiteral, Spell = ''42''\<rparr>"]
    TokenToDataType_literal_suffix [of "\<lparr>Type = FloatLiteral, Spell = ''1.5F''\<rparr>"]
    TokenToDataType_literal_suffix [of "\<lparr>Type = FloatLiteral, Spell = ''1.5h''\<rparr>"]
    TokenToDataType_literal_suffix [of "\<lparr>Type = FloatLiteral, Spell = ''1.5''\<rparr>"]
  by simp

section \<open>Properties of indexed semantics\<close>

declare to_string_nat.simps [simp del]

lemma of_char_digit_char: "d < 10 \<Longrightarrow> (of_char (digit_char d) :: nat) = 48 + d"
  by (simp add: digit_char_def)

lemma isdigit_digit_char: "d < 10 \<Longrightarrow> isdigit (digit_char d)"
  by (simp add: isdigit_def of_char_digit_char)

lemma isdigit_iff: "isdigit c \<longleftrightarrow> c \<in> set ''0123456789''"
proof
  assume "isdigit c"
  then have "48 \<le> (of_char c :: nat) \<and> (of_char c :: nat) \<le> 57"
    by (simp add: isdigit_def)
  then have "(of_char c :: nat) = 48 \<or> (of_char c :: nat) = 49 \<or> (of_char c :: nat) = 50 \<or>
      (of_char c :: nat) = 51 \<or> (of_char c :: nat) = 52 \<or> (of_char c :: nat) = 53 \<or>
      (of_char c :: nat) = 54 \<or> (of_char c :: nat) = 55 \<or> (of_char c :: nat) = 56 \<or>
      (of_char c :: nat) = 57"
    by arith
  then have "(of_char c :: nat) = of_char (CHR ''0'') \<or> (of_char c :: nat) = of_char (CHR ''1'') \<or>
      (of_char c :: nat) = of_char (CHR ''2'') \<or> (of_char c :: nat) = of_char (CHR ''3'') \<or>
      (of_char c :: nat) = of_char (CHR ''4'') \<or> (of_char c :: nat) = of_char (CHR ''5'') \<or>
      (of_char c :: nat) = of_char (CHR ''6'') \<or> (of_char c :: nat) = of_char (CHR ''7'') \<or>
      (of_char c :: nat) = of_char (CHR ''8'') \<or> (of_char c :: nat) = of_char (CHR ''9'')"
    by simp
  then show "c \<in> set ''0123456789''"
    unfolding of_char_eq_iff by simp
next
  assume "c \<in> set ''0123456789''"
  then show "isdigit c"
    by (auto simp: isdigit_def)
qed

lemma to_string_nat_isdigit: "c \<in> set (to_string_nat n) \<Longrightarrow> isdigit c"
proof (induction n arbitrary: c rule: to_string_nat.induct)
  case (1 n)
  show ?case
  proof (cases "n < 10")
    case True
    with "1.prems" show ?thesis
      by (subst (asm) to_string_nat.simps) (simp add: isdigit_digit_char)
  next
    case False
    with "1.prems" have "c \<in> set (to_string_nat (n div 10)) \<or> c = digit_char (n mod 10)"
      by (subst (asm) to_string_nat.simps) auto
    with False "1.IH" show ?thesis
      by (auto simp: isdigit_digit_char)
  qed
qed

lemma to_string_nat_not_Nil: "to_string_nat n \<noteq> []"
  by (subst to_string_nat.simps) simp

lemma atoi_digits_snoc:
  "(\<And>c. c \<in> set xs \<Longrightarrow> isdigit c) \<Longrightarrow> d < 10 \<Longrightarrow>
   atoi_digits acc (xs @ [digit_char d]) = atoi_digits acc xs * 10 + int d"
  by (induction xs arbitrary: acc) (simp_all add: isdigit_digit_char of_char_digit_char)

lemma atoi_digits_to_string_nat: "atoi_digits 0 (to_string_nat n) = int n"
proof (induction n rule: to_string_nat.induct)
  case (1 n)
  show ?case
  proof (cases "n < 10")
    case True
    then show ?thesis
      by (subst to_string_nat.simps) (simp add: isdigit_digit_char of_char_digit_char)
  next
    case False
    then have "atoi_digits 0 (to_string_nat n) =
        atoi_digits 0 (to_string_nat (n div 10) @ [digit_char (n mod 10)])"
      by (subst to_string_nat.simps) simp
    also have "\<dots> = atoi_digits 0 (to_string_nat (n div 10)) * 10 + int (n mod 10)"
      by (rule atoi_digits_snoc) (simp_all add: to_string_nat_isdigit)
    also have "\<dots> = int (n div 10) * 10 + int (n mod 10)"
      using False "1.IH" by simp
    also have "\<dots> = int (n div 10 * 10 + n mod 10)"
      by (simp only: of_nat_add of_nat_mult of_nat_numeral)
    also have "\<dots> = int n"
      by (simp only: div_mult_mod_eq)
    finally show ?thesis .
  qed
qed

lemma isdigit_not_NUL: "isdigit c \<Longrightarrow> c \<noteq> CHR 0x00"
  by (auto simp: isdigit_def)

lemma isdigit_not_space_sign:
  "isdigit c \<Longrightarrow> \<not> isspace c \<and> c \<noteq> CHR ''-'' \<and> c \<noteq> CHR ''+''"
  by (auto simp: isdigit_def isspace_def)

lemma atoi_to_string_nat:
  assumes "int n \<le> INT_MAX"
  shows "atoi (to_string_nat n) = Some (int n)"
proof -
  obtain c cs where ds: "to_string_nat n = c # cs"
    using to_string_nat_not_Nil [of n] by (cases "to_string_nat n") auto
  have "\<forall>x \<in> set (to_string_nat n). x \<noteq> CHR 0x00"
    using to_string_nat_isdigit isdigit_not_NUL by blast
  then have "takeWhile (\<lambda>x. x \<noteq> CHR 0x00) (to_string_nat n) = to_string_nat n"
    by (simp only: takeWhile_eq_all_conv)
  then have nonul: "takeWhile (\<lambda>x. x \<noteq> CHR 0x00) (c # cs) = c # cs"
    by (simp only: ds)
  have "isdigit c"
    using to_string_nat_isdigit [of c n] ds by simp
  then have c: "\<not> isspace c" "c \<noteq> CHR ''-''" "c \<noteq> CHR ''+''"
    using isdigit_not_space_sign by blast+
  have sp: "dropWhile isspace (c # cs) = c # cs"
    using c(1) by simp
  have v: "atoi_digits 0 (c # cs) = int n"
    using atoi_digits_to_string_nat [of n] by (simp only: ds)
  have "atoi (to_string_nat n) =
      (if INT_MIN \<le> atoi_digits 0 (c # cs) \<and> atoi_digits 0 (c # cs) \<le> INT_MAX
       then Some (atoi_digits 0 (c # cs)) else None)"
    unfolding ds atoi_def Let_def nonul sp using c(2,3)
    by (simp only: list.case if_False)
  also have "\<dots> = Some (int n)"
    unfolding v using assms by (simp add: INT_MIN_def)
  finally show ?thesis .
qed

lemma find_last_not_of_append:
  assumes "name \<noteq> []" and "last name \<notin> set cs" and "set ds \<subseteq> set cs"
  shows "find_last_not_of (name @ ds) cs = Some (length name - 1)"
proof -
  have "dropWhile (\<lambda>c. c \<in> set cs) (rev (name @ ds)) = dropWhile (\<lambda>c. c \<in> set cs) (rev name)"
    unfolding rev_append using assms(3) by (intro dropWhile_append2) auto
  also have "rev name = last name # rev (butlast name)"
    using assms(1) by (metis append_butlast_last_id rev.simps(2) rev_append rev_singleton_conv append_Cons append_Nil)
  finally show ?thesis
    using assms(2) by (simp add: find_last_not_of_def)
qed

lemma IndexedSemantic_of_string_append_index:
  assumes "name \<noteq> []" and "\<not> isdigit (last name)" and "int n \<le> INT_MAX"
  shows "IndexedSemantic_of_string (name @ to_string_nat n) =
    Some \<lparr>semantic = UserDefined, index = int n, userDefined = name\<rparr>"
proof -
  have ds: "set (to_string_nat n) \<subseteq> set ''0123456789''"
    using to_string_nat_isdigit [of _ n] unfolding isdigit_iff by blast
  have pos: "find_last_not_of (name @ to_string_nat n) ''0123456789'' = Some (length name - 1)"
    using assms(1,2) ds unfolding isdigit_iff by (rule find_last_not_of_append)
  have len: "Suc (length name - Suc 0) = length name"
    using assms(1) by (cases name) simp_all
  have lt: "length name < length (name @ to_string_nat n)"
    using to_string_nat_not_Nil [of n] by simp
  show ?thesis
    unfolding IndexedSemantic_of_string_def pos
    using lt by (simp add: len Let_def atoi_to_string_nat [OF assms(3)])
qed

lemma SemanticToString_system_value:
  "kind \<noteq> Semantic.Undefined \<Longrightarrow> kind \<noteq> UserDefined \<Longrightarrow>
   SemanticToString ru rd kind \<noteq> [] \<and> \<not> isdigit (last (SemanticToString ru rd kind))"
  by (cases kind) (simp_all add: isdigit_def)

text \<open>
  C3, as amended. For every system-value semantic \<open>kind\<close> and every index \<open>i\<close> with
  \<open>0 \<le> i \<le> INT_MAX\<close>, constructing an \<open>IndexedSemantic\<close> from the string
  \<open>ToString (IndexedSemantic (kind, i))\<close> yields the index \<open>i\<close> and the name of
  \<open>kind\<close> as user-defined text, with the semantic \<open>UserDefined\<close>, not \<open>kind\<close>.
\<close>

theorem IndexedSemantic_of_ToString_system_value:
  assumes "kind \<noteq> Semantic.Undefined" and "kind \<noteq> UserDefined" and "0 \<le> i" and "i \<le> INT_MAX"
  shows "IndexedSemantic_of_string (ToString ru rd (IndexedSemantic_of_Semantic kind i)) =
    Some \<lparr>semantic = UserDefined, index = i, userDefined = SemanticToString ru rd kind\<rparr>"
proof -
  have "ToString ru rd (IndexedSemantic_of_Semantic kind i) =
      SemanticToString ru rd kind @ to_string_nat (nat i)"
    using assms(2,3) by (simp add: ToString_def IndexedSemantic_of_Semantic_def to_string_def)
  moreover have "int (nat i) \<le> INT_MAX" "int (nat i) = i"
    using assms(3,4) by simp_all
  ultimately show ?thesis
    using SemanticToString_system_value [OF assms(1,2), of ru rd]
      IndexedSemantic_of_string_append_index [of "SemanticToString ru rd kind" "nat i"]
    by simp
qed

theorem IndexedSemantic_of_ToString_system_value_witness:
  "Target \<noteq> Semantic.Undefined \<and> Target \<noteq> UserDefined \<and> (0::int) \<le> 3 \<and> 3 \<le> INT_MAX \<and>
   IndexedSemantic_of_string (ToString ''<undefined>'' ''<user-defined>'' (IndexedSemantic_of_Semantic Target 3)) =
    Some \<lparr>semantic = UserDefined, index = 3, userDefined = ''SV_Target''\<rparr>"
  using IndexedSemantic_of_ToString_system_value [of Target 3 "''<undefined>''" "''<user-defined>''"]
  by (simp add: INT_MAX_def)

text \<open>
  The claim C3 as stated fails: from the string of \<open>(Target, 0)\<close> the constructor
  builds an \<open>IndexedSemantic\<close> that is not \<open>(Target, 0)\<close>.
\<close>

theorem IndexedSemantic_of_ToString_Target_differs:
  "IndexedSemantic_of_string (ToString ''<undefined>'' ''<user-defined>'' (IndexedSemantic_of_Semantic Target 0))
     \<noteq> Some (IndexedSemantic_of_Semantic Target 0)"
proof -
  have "ToString ''<undefined>'' ''<user-defined>'' (IndexedSemantic_of_Semantic Target 0) =
      ''SV_Target'' @ to_string_nat 0"
    by (simp add: ToString_def IndexedSemantic_of_Semantic_def to_string_def)
  moreover have "IndexedSemantic_of_string (''SV_Target'' @ to_string_nat 0) =
      Some \<lparr>semantic = UserDefined, index = int 0, userDefined = ''SV_Target''\<rparr>"
    by (rule IndexedSemantic_of_string_append_index) (simp_all add: isdigit_def INT_MAX_def)
  ultimately show ?thesis
    by (simp add: IndexedSemantic_of_Semantic_def)
qed

section \<open>Properties of the GLSL generator\<close>

lemma texFuncMap_supported:
  "map_of texFuncMap ''Sample'' = Some ''texture''"
  "map_of texFuncMap ''SampleBias'' = Some ''textureOffset''"
  "map_of texFuncMap ''SampleGrad'' = Some ''textureGrad''"
  "map_of texFuncMap ''SampleLevel'' = Some ''textureLod''"
  "map_of texFuncMap ''Load'' = Some ''texelFetch''"
  "map_of texFuncMap ''GetDimensions'' = None"
  by (simp_all add: texFuncMap_def)

text \<open>
  C5. The claim says that a texture method call named \<open>GetDimensions\<close> is written as
  a call of \<open>textureSize\<close> and is not reported as unsupported. The key of the entry of
  \<open>texFuncMap_\<close> is spelled with a trailing space, so the method name is not found:
  whatever the receiver, the arguments and the text written so far,
  \<open>WriteFunctionCallIntrinsicTex\<close> reports that the member function is not supported.
\<close>

theorem WriteFunctionCallIntrinsicTex_GetDimensions_unsupported:
  "WriteFunctionCallIntrinsicTex Visit
    \<lparr>varIdent = VarIdent tex (Some (VarIdent ''GetDimensions'' nx)), arguments = args\<rparr> out =
   Inl (Error (''texture member function '' @ [CHR 0x22] @ ''GetDimensions'' @ [CHR 0x22] @
     '' is not supported''))"
  by (simp add: WriteFunctionCallIntrinsicTex_def texFuncMap_def)

text \<open>
  C6, as amended. If the clip intrinsic is registered as used in the program,
  \<open>AppendAllReferencedIntrinsics\<close> appends, once each, the overload
  \<open>void clip(float x) { if (x < 0.0) discard; }\<close> and, for \<open>T\<close> among \<open>vec2\<close>,
  \<open>vec3\<close> and \<open>vec4\<close>, the overload
  \<open>void clip(T x) { if (any(lessThan(x, T(0.0)))) discard; }\<close>, then an empty line;
  if it is not registered, nothing is appended.
\<close>

theorem AppendAllReferencedIntrinsics_clip:
  "(Clip \<in> dom (usedIntrinsics ast) \<longrightarrow>
      AppendAllReferencedIntrinsics ast out =
        out @ ''void clip(float x) { if (x < 0.0) discard; }'' @ [CHR 0x0A] @
          ''void clip(vec2 x) { if (any(lessThan(x, vec2(0.0)))) discard; }'' @ [CHR 0x0A] @
          ''void clip(vec3 x) { if (any(lessThan(x, vec3(0.0)))) discard; }'' @ [CHR 0x0A] @
          ''void clip(vec4 x) { if (any(lessThan(x, vec4(0.0)))) discard; }'' @ [CHR 0x0A] @
          [CHR 0x0A]) \<and>
   (Clip \<notin> dom (usedIntrinsics ast) \<longrightarrow> AppendAllReferencedIntrinsics ast out = out)"
  by (auto simp: AppendAllReferencedIntrinsics_def Used_def AppendClipIntrinsics_def
      WriteLn_def Blank_def)

theorem AppendAllReferencedIntrinsics_clip_witness:
  "Clip \<in> dom (usedIntrinsics \<lparr>usedIntrinsics = [Clip \<mapsto> ()]\<rparr>) \<and>
   lines_of (AppendAllReferencedIntrinsics \<lparr>usedIntrinsics = [Clip \<mapsto> ()]\<rparr> []) =
     [''void clip(float x) { if (x < 0.0) discard; }'',
      ''void clip(vec2 x) { if (any(lessThan(x, vec2(0.0)))) discard; }'',
      ''void clip(vec3 x) { if (any(lessThan(x, vec3(0.0)))) discard; }'',
      ''void clip(vec4 x) { if (any(lessThan(x, vec4(0.0)))) discard; }'',
      ''''] \<and>
   Clip \<notin> dom (usedIntrinsics \<lparr>usedIntrinsics = [Mul \<mapsto> ()]\<rparr>) \<and>
   AppendAllReferencedIntrinsics \<lparr>usedIntrinsics = [Mul \<mapsto> ()]\<rparr> [] = []"
  using AppendAllReferencedIntrinsics_clip [of "\<lparr>usedIntrinsics = [Clip \<mapsto> ()]\<rparr>" "[]"]
    AppendAllReferencedIntrinsics_clip [of "\<lparr>usedIntrinsics = [Mul \<mapsto> ()]\<rparr>" "[]"]
  by simp

text \<open>
  The claim C6 as stated fails: with clip registered as used, no line of the emitted
  text is the overload \<open>void clip(float x) { if (any(lessThan(x, float(0)))) discard; }\<close>.
\<close>

theorem AppendAllReferencedIntrinsics_clip_float_overload:
  "Used \<lparr>usedIntrinsics = [Clip \<mapsto> ()]\<rparr> Clip \<and>
   ''void clip(float x) { if (any(lessThan(x, float(0)))) discard; }''
     \<notin> set (lines_of (AppendAllReferencedIntrinsics \<lparr>usedIntrinsics = [Clip \<mapsto> ()]\<rparr> []))"
  by (simp add: AppendAllReferencedIntrinsics_def Used_def AppendClipIntrinsics_def
      WriteLn_def Blank_def)

text \<open>
  C10. For every register name that is empty or whose first character differs from
  the expected prefix, \<open>ValidateRegisterPrefix\<close> reports an error; the message holds
  the character read at index 0 of the name, which on the empty name is the null
  character.
\<close>

theorem ValidateRegisterPrefix_rejects:
  "(registerName = [] \<or> hd registerName \<noteq> prefix \<longrightarrow>
      ValidateRegisterPrefix registerName prefix =
        Inl (Error (''invalid register prefix '' @ [CHR 0x27, string_at registerName 0, CHR 0x27] @
          '' (expected '' @ [CHR 0x27, prefix, CHR 0x27] @ '')''))) \<and>
   (registerName = [] \<longrightarrow> string_at registerName 0 = CHR 0x00)"
  by (cases registerName) (simp_all add: ValidateRegisterPrefix_def string_at_def)

theorem ValidateRegisterPrefix_rejects_witness:
  "([] = ([] :: string) \<or> hd [] \<noteq> CHR ''b'') \<and>
   ValidateRegisterPrefix [] (CHR ''b'') =
     Inl (Error (''invalid register prefix '' @ [CHR 0x27, CHR 0x00, CHR 0x27] @
       '' (expected '' @ [CHR 0x27, CHR ''b'', CHR 0x27] @ '')'')) \<and>
   (''t0'' = [] \<or> hd ''t0'' \<noteq> CHR ''b'') \<and>
   ValidateRegisterPrefix ''t0'' (CHR ''b'') =
     Inl (Error (''invalid register prefix '' @ [CHR 0x27, CHR ''t'', CHR 0x27] @
       '' (expected '' @ [CHR 0x27, CHR ''b'', CHR 0x27] @ '')''))"
  using ValidateRegisterPrefix_rejects [of "[]" "CHR ''b''"] ValidateRegisterPrefix_rejects [of "''t0''" "CHR ''b''"]
  by (simp add: string_at_def)

end
